theory Spec2Isabelle
  imports Complex_Main "HOL-Library.Sublist"
begin

section \<open>Python strings\<close>

text \<open>
  A Python \<open>str\<close> is a sequence of code points and \<open>len\<close> counts them. The model uses
  \<open>string\<close>, reading every \<open>char\<close> as one code point below 256 (Latin-1), so \<open>length\<close> is
  \<open>len\<close>. \<open>str.strip()\<close> and \<open>str.split()\<close> without arguments treat as whitespace the
  code points for which \<open>str.isspace\<close> holds; below 256 these are the twelve listed here.
\<close>

definition isspace :: "char \<Rightarrow> bool" where
  "isspace c \<longleftrightarrow> c \<in> set [CHR 0x09, CHR 0x0A, CHR 0x0B, CHR 0x0C, CHR 0x0D,
      CHR 0x1C, CHR 0x1D, CHR 0x1E, CHR 0x1F, CHR 0x20, CHR 0x85, CHR 0xA0]"

text \<open>\<open>s.strip()\<close>: drop the leading and the trailing whitespace.\<close>

definition strip :: "string \<Rightarrow> string" where
  "strip s = rev (dropWhile isspace (rev (dropWhile isspace s)))"

text \<open>\<open>s.startswith(p)\<close>.\<close>

fun startswith :: "string \<Rightarrow> string \<Rightarrow> bool" where
  "startswith s [] = True"
| "startswith [] (p # ps) = False"
| "startswith (c # cs) (p # ps) = (c = p \<and> startswith cs ps)"

text \<open>
  \<open>s.split()\<close>: scan left to right; whitespace ends the word being collected (if there
  is one) and is dropped; any other character extends the word. \<open>split_from w s\<close> is the
  scan of the rest \<open>s\<close> with \<open>w\<close> the word collected so far.
\<close>

fun split_from :: "string \<Rightarrow> string \<Rightarrow> string list" where
  "split_from w [] = (if w = [] then [] else [w])"
| "split_from w (c # cs) =
     (if isspace c then (if w = [] then split_from [] cs else w # split_from [] cs)
      else split_from (w @ [c]) cs)"

definition split :: "string \<Rightarrow> string list" where
  "split s = split_from [] s"

text \<open>\<open>sep.join(xs)\<close>.\<close>

fun join :: "string \<Rightarrow> string list \<Rightarrow> string" where
  "join sep [] = []"
| "join sep [x] = x"
| "join sep (x # y # ys) = x @ sep @ join sep (y # ys)"

text \<open>\<open>str(n)\<close> of an integer: its decimal digits, with a minus sign when negative.\<close>

fun digits :: "nat \<Rightarrow> string" where
  "digits n = (if n < 10 then [''0123456789'' ! n]
               else digits (n div 10) @ [''0123456789'' ! (n mod 10)])"

declare digits.simps [simp del]

definition str_int :: "int \<Rightarrow> string" where
  "str_int i = (if i < 0 then CHR ''-'' # digits (nat (- i)) else digits (nat i))"

text \<open>
  \<open>repr(s)\<close> of a string: quoted with \<open>'\<close>, or with \<open>"\<close> when the string has a \<open>'\<close> and no
  \<open>"\<close>; the quote and the backslash are escaped with a backslash, tab, newline and
  carriage return are written \<open>\t\<close>, \<open>\n\<close>, \<open>\r\<close>, and the other characters that are not
  printable (below 256: the controls 0x00-0x1F and 0x7F-0x9F, 0xA0 and 0xAD) are written
  \<open>\xhh\<close> with two lower-case hexadecimal digits.
\<close>

definition hex2 :: "char \<Rightarrow> string" where
  "hex2 c = [''0123456789abcdef'' ! (of_char c div 16), ''0123456789abcdef'' ! (of_char c mod 16)]"

definition isprintable :: "char \<Rightarrow> bool" where
  "isprintable c \<longleftrightarrow> (32 \<le> (of_char c :: nat) \<and> (of_char c :: nat) < 127)
     \<or> (160 < (of_char c :: nat) \<and> (of_char c :: nat) \<noteq> 173)"

definition escape_char :: "char \<Rightarrow> char \<Rightarrow> string" where
  "escape_char quote c =
     (if c = quote \<or> c = CHR 0x5C then [CHR 0x5C, c]
      else if c = CHR 0x09 then [CHR 0x5C, CHR ''t'']
      else if c = CHR 0x0A then [CHR 0x5C, CHR ''n'']
      else if c = CHR 0x0D then [CHR 0x5C, CHR ''r'']
      else if isprintable c then [c]
      else [CHR 0x5C, CHR ''x''] @ hex2 c)"

definition repr_str :: "string \<Rightarrow> string" where
  "repr_str s =
     (let quote = (if CHR 0x27 \<in> set s \<and> CHR 0x22 \<notin> set s then CHR 0x22 else CHR 0x27)
      in quote # concat (map (escape_char quote) s) @ [quote])"

section \<open>Python values and their text\<close>

text \<open>
  The values that reach the prompt: \<open>None\<close>, integers, strings, and the dictionary
  handed to \<open>chain.invoke\<close>. \<open>py_repr\<close> is \<open>repr\<close>; \<open>py_str\<close> is \<open>str\<close>, which is what a
  \<open>{slot}\<close> of a format template inserts. They differ on strings only.
\<close>

datatype pyval = PNone | PInt int | PStr string | PDict "(string \<times> pyval) list"

fun py_repr :: "pyval \<Rightarrow> string" where
  "py_repr PNone = ''None''"
| "py_repr (PInt i) = str_int i"
| "py_repr (PStr s) = repr_str s"
| "py_repr (PDict kvs) =
     ''{'' @ join '', '' (map (\<lambda>kv. repr_str (fst kv) @ '': '' @ py_repr (snd kv)) kvs) @ ''}''"

fun py_str :: "pyval \<Rightarrow> string" where
  "py_str (PStr s) = s"
| "py_str v = py_repr v"

definition opt_str :: "string option \<Rightarrow> pyval" where
  "opt_str v = (case v of None \<Rightarrow> PNone | Some s \<Rightarrow> PStr s)"

definition opt_int :: "int option \<Rightarrow> pyval" where
  "opt_int v = (case v of None \<Rightarrow> PNone | Some i \<Rightarrow> PInt i)"

section \<open>The summarizer (src/utils/llm\_utils.py)\<close>

text \<open>
  The model backend is outside the program: a call either returns the completion text or
  raises an exception of class \<open>Exception\<close>, of which the program only uses \<open>str(e)\<close>.
\<close>

datatype backend_result = Returns string | Raises string

record llm_call =
  model :: string
  temperature :: real
  messages :: "(string \<times> string) list"

type_synonym backend = "llm_call \<Rightarrow> backend_result"

text \<open>
  The two templates of \<open>ChatPromptTemplate.from_messages\<close>, with the line breaks and the
  indentation of the triple-quoted literals. Each takes the values of the template
  variables and inserts their \<open>str\<close>.
\<close>

definition system_message :: string where
  "system_message = join [CHR 0x0A]
     [''You are an expert content summarizer. '',
      ''             Create concise, accurate summaries that preserve key information.'',
      ''             Adapt your style based on the content type.'',
      ''             Always maintain factual accuracy and clarity.'']"

definition user_message :: "pyval \<Rightarrow> pyval \<Rightarrow> pyval \<Rightarrow> pyval \<Rightarrow> pyval \<Rightarrow> string" where
  "user_message v_content_type v_content v_summary_length v_style v_focus_points = join [CHR 0x0A]
     [''Content Type: '' @ py_str v_content_type,
      ''            '',
      ''            Content to summarize:'',
      ''            '' @ py_str v_content,
      ''            '',
      ''            Requirements:'',
      ''            - Target length: '' @ py_str v_summary_length @ '' words'',
      ''            - Writing style: '' @ py_str v_style,
      ''            - Focus areas: '' @ py_str v_focus_points,
      ''            '',
      ''            Generate a summary that meets these exact requirements.'']"

text \<open>
  The chain is \<open>{"content": RunnablePassthrough(), ...} | prompt | llm | StrOutputParser()\<close>.
  The dictionary of runnables is a parallel step: every entry is run on the input of the
  step, and \<open>RunnablePassthrough\<close> returns its input unchanged. So each of the five
  template variables receives the whole dictionary that \<open>chain.invoke\<close> was given.
  \<open>SmartSummarizer()\<close> is built with the default model and temperature.
\<close>

definition RunnablePassthrough :: "pyval \<Rightarrow> pyval" where
  "RunnablePassthrough x = x"

definition chain_call :: "pyval \<Rightarrow> llm_call" where
  "chain_call x =
     \<lparr>model = ''gpt-3.5-turbo'', temperature = 3 / 10,
      messages = [(''system'', system_message),
                  (''user'', user_message (RunnablePassthrough x) (RunnablePassthrough x)
                     (RunnablePassthrough x) (RunnablePassthrough x) (RunnablePassthrough x))]\<rparr>"

definition chain_input ::
  "string \<Rightarrow> string option \<Rightarrow> int option \<Rightarrow> string option \<Rightarrow> string option \<Rightarrow> pyval" where
  "chain_input c ct sl st fp =
     PDict [(''content'', PStr c), (''content_type'', opt_str ct),
            (''summary_length'', opt_int sl), (''style'', opt_str st),
            (''focus_points'', opt_str fp)]"

text \<open>
  \<open>SmartSummarizer.summarize\<close>. The result is the returned string together with the list
  of calls made to the model backend.
\<close>

definition summarize ::
  "backend \<Rightarrow> string \<Rightarrow> string option \<Rightarrow> int option \<Rightarrow> string option \<Rightarrow> string option
     \<Rightarrow> string \<times> llm_call list" where
  "summarize backend c ct sl st fp =
     (if c = [] \<or> length (strip c) < 50
      then (''Error: Content too short to summarize effectively (min 50 characters)'', [])
      else (let call = chain_call (chain_input c ct sl st fp)
            in case backend call of
                 Returns summary \<Rightarrow> (strip summary, [call])
               | Raises e \<Rightarrow> (''Error generating summary: '' @ e, [call])))"

section \<open>The request handler (src/app.py)\<close>

record SummaryRequest =
  content :: string
  content_type :: "string option"
  summary_length :: "int option"
  style :: "string option"
  focus_points :: "string option"

record parameters =
  p_content_type :: "string option"
  p_summary_length :: "int option"
  p_style :: "string option"
  p_focus_points :: "string option"

record SummaryResponse =
  summary :: string
  word_count :: int
  char_count :: int
  parameters_used :: parameters

text \<open>
  \<open>HTTPException(status_code, detail)\<close>; its \<open>str\<close> is \<open>f"{status_code}: {detail}"\<close>.
\<close>

datatype http_exception = HTTPException nat string

fun str_exception :: "http_exception \<Rightarrow> string" where
  "str_exception (HTTPException status_code detail) = digits status_code @ '': '' @ detail"

text \<open>
  What one request did: the call of the summarizer with its arguments, and each call of
  the model backend.
\<close>

datatype event =
  Summarize string "string option" "int option" "string option" "string option"
| Complete llm_call

text \<open>
  \<open>create_summary\<close>. The body of the \<open>try\<close> either raises the \<open>HTTPException\<close> for a text
  that starts with \<open>Error\<close> or returns the response; \<open>except Exception\<close> catches what the
  body raised (an \<open>HTTPException\<close> is an \<open>Exception\<close>) and raises the wrapped one.
\<close>

definition try_body :: "SummaryRequest \<Rightarrow> string \<Rightarrow> http_exception + SummaryResponse" where
  "try_body request s =
     (if startswith s ''Error'' then Inl (HTTPException 500 s)
      else Inr \<lparr>summary = s, word_count = int (length (split s)), char_count = int (length s),
                parameters_used =
                  \<lparr>p_content_type = content_type request, p_summary_length = summary_length request,
                   p_style = style request, p_focus_points = focus_points request\<rparr>\<rparr>)"

definition create_summary ::
  "backend \<Rightarrow> SummaryRequest \<Rightarrow> (http_exception + SummaryResponse) \<times> event list" where
  "create_summary backend request =
     (let (s, calls) = summarize backend (content request) (content_type request)
                         (summary_length request) (style request) (focus_points request);
          trace = Summarize (content request) (content_type request) (summary_length request)
                    (style request) (focus_points request) # map Complete calls
      in case try_body request s of
           Inl e \<Rightarrow> (Inl (HTTPException 500 (''Internal server error: '' @ str_exception e)), trace)
         | Inr response \<Rightarrow> (Inr response, trace))"

section \<open>Request validation (the SummaryRequest model of src/app.py)\<close>

text \<open>
  A field of the JSON body is absent, \<open>null\<close>, a value of the JSON type the field
  declares (a string, or an integer for \<open>summary_length\<close>), or a value of another JSON
  type, for which the model takes an array or an object (\<open>Other\<close>).
  The request model validates the fields in the order of their declaration and reports
  the errors of all of them, each with the name of its field:
  \<^item> an array or an object is refused by the declared type (\<open>str\<close>, \<open>int\<close>) with a type
    error, whose text names the expected type only; the function declared with
    \<open>@validator\<close> (without \<open>pre=True\<close>) runs after the type and so does not run on it;
  \<^item> an absent field takes its default without being validated, and the required
    \<open>content\<close> is reported missing;
  \<^item> \<open>null\<close> is admitted by \<open>Optional[...]\<close> and refused for \<open>content\<close>;
  \<^item> \<open>min_length\<close> and \<open>max_length\<close> compare \<open>len\<close> of the string as received (the
    model does not strip it), \<open>ge\<close> and \<open>le\<close> compare the integer, and neither bound is
    applied to \<open>None\<close>;
  \<^item> a function declared with \<open>@validator\<close> runs on the string supplied for its field
    and on \<open>None\<close>, and a \<open>ValueError\<close> it raises becomes the error of that field,
    carrying the text of the \<open>ValueError\<close>.
\<close>

datatype 'a json_field = Absent | Null | Val 'a | Other

record request_body =
  body_content :: "string json_field"
  body_content_type :: "string json_field"
  body_summary_length :: "int json_field"
  body_style :: "string json_field"
  body_focus_points :: "string json_field"

datatype error_kind =
  Missing
| NoneNotAllowed
| WrongType
| MinLength nat
| MaxLength nat
| NotGe int
| NotLe int
| ValueError string

type_synonym validation_error = "string \<times> error_kind"

definition validate_content_type :: "string option \<Rightarrow> string + string option" where
  "validate_content_type v =
     (let allowed = [''general'', ''article'', ''email'', ''report'', ''technical'', ''research'']
      in if v \<notin> set (map Some allowed)
         then Inl (''content_type must be one of: '' @ join '', '' allowed)
         else Inr v)"

definition validate_style :: "string option \<Rightarrow> string + string option" where
  "validate_style v =
     (let allowed = [''professional'', ''casual'', ''technical'', ''academic'']
      in if v \<notin> set (map Some allowed)
         then Inl (''style must be one of: '' @ join '', '' allowed)
         else Inr v)"

fun field_content :: "string json_field \<Rightarrow> error_kind + string" where
  "field_content Absent = Inl Missing"
| "field_content Null = Inl NoneNotAllowed"
| "field_content (Val s) =
     (if length s < 50 then Inl (MinLength 50)
      else if length s > 50000 then Inl (MaxLength 50000)
      else Inr s)"
| "field_content Other = Inl WrongType"

definition run_validator ::
  "(string option \<Rightarrow> string + string option) \<Rightarrow> string option \<Rightarrow> error_kind + string option" where
  "run_validator f v = (case f v of Inl msg \<Rightarrow> Inl (ValueError msg) | Inr v' \<Rightarrow> Inr v')"

fun field_content_type :: "string json_field \<Rightarrow> error_kind + string option" where
  "field_content_type Absent = Inr (Some ''general'')"
| "field_content_type Null = run_validator validate_content_type None"
| "field_content_type (Val s) = run_validator validate_content_type (Some s)"
| "field_content_type Other = Inl WrongType"

fun field_summary_length :: "int json_field \<Rightarrow> error_kind + int option" where
  "field_summary_length Absent = Inr (Some 100)"
| "field_summary_length Null = Inr None"
| "field_summary_length (Val i) =
     (if i < 20 then Inl (NotGe 20)
      else if i > 500 then Inl (NotLe 500)
      else Inr (Some i))"
| "field_summary_length Other = Inl WrongType"

fun field_style :: "string json_field \<Rightarrow> error_kind + string option" where
  "field_style Absent = Inr (Some ''professional'')"
| "field_style Null = run_validator validate_style None"
| "field_style (Val s) = run_validator validate_style (Some s)"
| "field_style Other = Inl WrongType"

fun field_focus_points :: "string json_field \<Rightarrow> error_kind + string option" where
  "field_focus_points Absent = Inr (Some ''main ideas'')"
| "field_focus_points Null = Inr None"
| "field_focus_points (Val s) = Inr (Some s)"
| "field_focus_points Other = Inl WrongType"

definition errors_at :: "string \<Rightarrow> error_kind + 'a \<Rightarrow> validation_error list" where
  "errors_at loc r = (case r of Inl e \<Rightarrow> [(loc, e)] | Inr v \<Rightarrow> [])"

definition validate :: "request_body \<Rightarrow> validation_error list + SummaryRequest" where
  "validate b =
     (let r1 = field_content (body_content b);
          r2 = field_content_type (body_content_type b);
          r3 = field_summary_length (body_summary_length b);
          r4 = field_style (body_style b);
          r5 = field_focus_points (body_focus_points b)
      in case (r1, r2, r3, r4, r5) of
           (Inr c, Inr ct, Inr sl, Inr st, Inr fp) \<Rightarrow>
             Inr \<lparr>content = c, content_type = ct, summary_length = sl, style = st,
                  focus_points = fp\<rparr>
         | _ \<Rightarrow>
             Inl (errors_at ''content'' r1 @ errors_at ''content_type'' r2
                  @ errors_at ''summary_length'' r3 @ errors_at ''style'' r4
                  @ errors_at ''focus_points'' r5))"

text \<open>
  \<open>POST /summarize\<close>: the framework validates the body into a \<open>SummaryRequest\<close> and
  answers 422 with the errors without calling the handler when that fails; otherwise it
  calls \<open>create_summary\<close>, answers 200 with the response it returns, and turns the
  \<open>HTTPException\<close> it raises into a response with that status and detail.
\<close>

datatype http_response =
  Http200 SummaryResponse
| Http422 "validation_error list"
| HttpError nat string

definition post_summarize :: "backend \<Rightarrow> request_body \<Rightarrow> http_response \<times> event list" where
  "post_summarize backend b =
     (case validate b of
        Inl errs \<Rightarrow> (Http422 errs, [])
      | Inr request \<Rightarrow>
          (case create_summary backend request of
             (Inl (HTTPException status_code detail), trace) \<Rightarrow> (HttpError status_code detail, trace)
           | (Inr response, trace) \<Rightarrow> (Http200 response, trace)))"

section \<open>Counting words as the specification describes it\<close>

text \<open>
  The specification's word count: split the text at every whitespace character and count
  the pieces that are not empty. \<open>fields\<close> cuts at every whitespace character, keeping
  the empty pieces; \<open>token_count\<close> counts the others.
\<close>

fun fields :: "string \<Rightarrow> string list" where
  "fields [] = [[]]"
| "fields (c # cs) =
     (if isspace c then [] # fields cs
      else (case fields cs of [] \<Rightarrow> [[c]] | f # fs \<Rightarrow> (c # f) # fs))"

definition token_count :: "string \<Rightarrow> nat" where
  "token_count s = length (filter (\<lambda>w. w \<noteq> []) (fields s))"

section \<open>Test doubles and the requests of the scenarios\<close>

definition stub_returns :: "string \<Rightarrow> backend" where
  "stub_returns t = (\<lambda>call. Returns t)"

definition stub_raises :: "string \<Rightarrow> backend" where
  "stub_raises e = (\<lambda>call. Raises e)"

definition request_A :: SummaryRequest where
  "request_A =
     \<lparr>content = replicate 100 CHR ''A'', content_type = Some ''general'',
      summary_length = Some 50, style = Some ''professional'',
      focus_points = Some ''main ideas''\<rparr>"

text \<open>The JSON body that supplies \<open>content\<close> only.\<close>

definition body_of :: "string \<Rightarrow> request_body" where
  "body_of c =
     \<lparr>body_content = Val c, body_content_type = Absent, body_summary_length = Absent,
      body_style = Absent, body_focus_points = Absent\<rparr>"

text \<open>The call that \<open>summarize\<close> makes to the backend for a request.\<close>

definition call_of :: "SummaryRequest \<Rightarrow> llm_call" where
  "call_of r =
     chain_call (chain_input (content r) (content_type r) (summary_length r) (style r)
       (focus_points r))"

text \<open>The string that \<open>summarize\<close> returns to the handler for a request.\<close>

definition summarize_text :: "backend \<Rightarrow> SummaryRequest \<Rightarrow> string" where
  "summarize_text backend r =
     fst (summarize backend (content r) (content_type r) (summary_length r) (style r)
       (focus_points r))"

text \<open>The text of the user message of a call to the backend.\<close>

definition user_text :: "llm_call \<Rightarrow> string" where
  "user_text call = snd (messages call ! 1)"

text \<open>A content with a tab character between two runs of letters.\<close>

definition content_with_tab :: string where
  "content_with_tab = replicate 50 CHR ''A'' @ [CHR 0x09] @ replicate 50 CHR ''B''"

definition request_with_tab :: SummaryRequest where
  "request_with_tab =
     \<lparr>content = content_with_tab, content_type = Some ''general'', summary_length = Some 100,
      style = Some ''professional'', focus_points = Some ''main ideas''\<rparr>"

text \<open>The request of a body that supplies the content and \<open>null\<close> for two fields.\<close>

definition request_with_None :: SummaryRequest where
  "request_with_None =
     \<lparr>content = replicate 100 CHR ''A'', content_type = Some ''general'', summary_length = None,
      style = Some ''professional'', focus_points = None\<rparr>"

section \<open>Facts about the string functions\<close>

lemma dropWhile_hd: "xs \<noteq> [] \<Longrightarrow> \<not> P (hd xs) \<Longrightarrow> dropWhile P xs = xs"
  by (cases xs) simp_all

lemma strip_nonspace:
  "s \<noteq> [] \<Longrightarrow> \<not> isspace (hd s) \<Longrightarrow> \<not> isspace (last s) \<Longrightarrow> strip s = s"
  by (simp add: strip_def dropWhile_hd hd_rev)

lemma strip_A: "strip (replicate 100 CHR ''A'') = replicate 100 CHR ''A''"
  by (rule strip_nonspace) (simp_all add: isspace_def)

lemma fields_nonempty: "fields s \<noteq> []"
  by (induction s) (auto split: list.splits)

lemma split_from_fields:
  "split_from w s = filter (\<lambda>x. x \<noteq> []) ((w @ hd (fields s)) # tl (fields s))"
proof (induction s arbitrary: w)
  case Nil
  then show ?case by simp
next
  case (Cons c cs)
  then show ?case using fields_nonempty [of cs]
    by (cases "fields cs") auto
qed

lemma split_fields: "split s = filter (\<lambda>w. w \<noteq> []) (fields s)"
  using fields_nonempty [of s] by (cases "fields s") (simp_all add: split_def split_from_fields)

lemma length_split: "length (split s) = token_count s"
  by (simp add: split_fields token_count_def)

lemma digits_500: "digits 500 = ''500''"
  by (simp add: digits.simps)

lemma startswith_append: "startswith (p @ s) p"
  by (induction p) simp_all

lemma startswith_iff: "startswith s p \<longleftrightarrow> prefix p s"
  by (induction s p rule: startswith.induct) auto

text \<open>
  \<open>strip\<close> removes whitespace at both ends and nothing else, and what it leaves neither
  starts nor ends with whitespace; the words of \<open>split\<close> are not empty and hold no
  whitespace.
\<close>

lemma strip_decomposes:
  "\<exists>a b. s = a @ strip s @ b \<and> (\<forall>c\<in>set a. isspace c) \<and> (\<forall>c\<in>set b. isspace c)"
proof -
  let ?m = "dropWhile isspace s"
  let ?t = "takeWhile isspace (rev ?m)"
  have "rev (dropWhile isspace (rev ?m)) @ rev ?t = rev (?t @ dropWhile isspace (rev ?m))"
    by (simp only: rev_append)
  also have "\<dots> = ?m"
    by simp
  finally have m: "?m = strip s @ rev ?t"
    unfolding strip_def by (rule sym)
  have "s = takeWhile isspace s @ ?m"
    by simp
  with m have "s = takeWhile isspace s @ strip s @ rev ?t"
    by simp
  moreover have "\<forall>c\<in>set (takeWhile isspace s). isspace c"
    by (auto dest: set_takeWhileD)
  moreover have "\<forall>c\<in>set (rev ?t). isspace c"
    by (auto dest: set_takeWhileD)
  ultimately show ?thesis
    by blast
qed

lemma last_dropWhile: "dropWhile P xs \<noteq> [] \<Longrightarrow> last (dropWhile P xs) = last xs"
  by (induction xs) (auto split: if_splits)

lemma strip_ends:
  "strip s \<noteq> [] \<Longrightarrow> \<not> isspace (hd (strip s)) \<and> \<not> isspace (last (strip s))"
proof -
  assume n: "strip s \<noteq> []"
  let ?m = "dropWhile isspace s"
  from n have d: "dropWhile isspace (rev ?m) \<noteq> []"
    by (simp only: strip_def rev_is_Nil_conv not_False_eq_True)
  have m: "?m \<noteq> []"
  proof
    assume "?m = []"
    then have "dropWhile isspace (rev ?m) = []"
      by (simp only: rev.simps dropWhile.simps)
    with d show False ..
  qed
  have "last (strip s) = hd (dropWhile isspace (rev ?m))"
    unfolding strip_def by (rule last_rev)
  then have l: "\<not> isspace (last (strip s))"
    using d hd_dropWhile [of isspace "rev ?m"] by metis
  have "hd (strip s) = last (dropWhile isspace (rev ?m))"
    unfolding strip_def by (rule hd_rev)
  also have "\<dots> = last (rev ?m)"
    using d by (rule last_dropWhile)
  also have "\<dots> = hd ?m"
    by (simp only: last_rev)
  finally have "\<not> isspace (hd (strip s))"
    using m hd_dropWhile [of isspace s] by metis
  with l show ?thesis
    by simp
qed

lemma split_from_words:
  "\<forall>c\<in>set w. \<not> isspace c \<Longrightarrow> x \<in> set (split_from w s) \<Longrightarrow>
   x \<noteq> [] \<and> (\<forall>c\<in>set x. \<not> isspace c)"
proof (induction s arbitrary: w)
  case Nil
  then show ?case by (auto split: if_splits)
next
  case (Cons a s)
  show ?case
  proof (cases "isspace a")
    case True
    with Cons.prems have "x = w \<and> w \<noteq> [] \<or> x \<in> set (split_from [] s)"
      by (auto split: if_splits)
    then show ?thesis
      using Cons.prems(1) Cons.IH [of "[]"] by auto
  next
    case False
    with Cons.prems have "x \<in> set (split_from (w @ [a]) s)"
      by simp
    moreover from False Cons.prems(1) have "\<forall>c\<in>set (w @ [a]). \<not> isspace c"
      by simp
    ultimately show ?thesis
      using Cons.IH [of "w @ [a]"] by blast
  qed
qed

lemma split_words: "x \<in> set (split s) \<Longrightarrow> x \<noteq> [] \<and> (\<forall>c\<in>set x. \<not> isspace c)"
  using split_from_words [of "[]" x s] by (simp add: split_def)

section \<open>The summarizer guards itself against short content\<close>

text \<open>
  Claim C3. Called directly, with any backend and any other arguments,
  \<open>summarize\<close> on a content whose stripped length is below 50 (the empty content
  included) returns its "content too short" error text and makes no call to the model
  backend.
\<close>

theorem summarize_short_content:
  "length (strip c) < 50 \<Longrightarrow>
   summarize backend c ct sl st fp =
     (''Error: Content too short to summarize effectively (min 50 characters)'', [])"
  by (simp add: summarize_def)

theorem summarize_short_content_witness:
  "length (strip ''   Too short   '') < 50 \<and>
   summarize (stub_returns ''never used'') ''   Too short   '' None None None None =
     (''Error: Content too short to summarize effectively (min 50 characters)'', [])"
proof -
  have short: "length (strip ''   Too short   '') < 50"
    by (simp add: strip_def isspace_def)
  show ?thesis
    using short summarize_short_content [OF short] by simp
qed

section \<open>Scenario A\<close>

text \<open>
  Claim C8, as amended. For the request of scenario A and a backend that returns
  \<open>This is a short test summary.\<close>, \<open>create_summary\<close> returns the response with that
  summary, word count 6 and character count 29 (the text has 29 characters).
\<close>

theorem scenario_A_result:
  "fst (create_summary (stub_returns ''This is a short test summary.'') request_A) =
     Inr \<lparr>summary = ''This is a short test summary.'', word_count = 6, char_count = 29,
          parameters_used =
            \<lparr>p_content_type = Some ''general'', p_summary_length = Some 50,
             p_style = Some ''professional'', p_focus_points = Some ''main ideas''\<rparr>\<rparr>"
  by (simp add: create_summary_def request_A_def stub_returns_def summarize_def strip_A
        try_body_def split_def strip_def isspace_def)

text \<open>
  The response of scenario A is not the one with character count 30.
\<close>

theorem scenario_A_char_count_not_30:
  "fst (create_summary (stub_returns ''This is a short test summary.'') request_A) \<noteq>
     Inr \<lparr>summary = ''This is a short test summary.'', word_count = 6, char_count = 30,
          parameters_used =
            \<lparr>p_content_type = Some ''general'', p_summary_length = Some 50,
             p_style = Some ''professional'', p_focus_points = Some ''main ideas''\<rparr>\<rparr>"
  by (simp add: create_summary_def request_A_def stub_returns_def summarize_def strip_A
        try_body_def split_def strip_def isspace_def)

section \<open>Facts about validation and the handler\<close>

lemma validate_content_error:
  "field_content (body_content b) = Inl e \<Longrightarrow>
   \<exists>errs. validate b = Inl ((''content'', e) # errs)"
  by (simp add: validate_def Let_def errors_at_def split: sum.splits)

lemma validate_defaults:
  "field_content (body_content b) = Inr c \<Longrightarrow> body_content_type b = Absent \<Longrightarrow>
   body_summary_length b = Absent \<Longrightarrow> body_style b = Absent \<Longrightarrow>
   body_focus_points b = Absent \<Longrightarrow>
   validate b =
     Inr \<lparr>content = c, content_type = Some ''general'', summary_length = Some 100,
          style = Some ''professional'', focus_points = Some ''main ideas''\<rparr>"
  by (simp add: validate_def)

lemma validate_content_type_rejects:
  "v \<notin> set (map Some [''general'', ''article'', ''email'', ''report'', ''technical'', ''research'']) \<Longrightarrow>
   run_validator validate_content_type v =
     Inl (ValueError
       ''content_type must be one of: general, article, email, report, technical, research'')"
  by (simp add: run_validator_def validate_content_type_def)

lemma validate_style_rejects:
  "v \<notin> set (map Some [''professional'', ''casual'', ''technical'', ''academic'']) \<Longrightarrow>
   run_validator validate_style v =
     Inl (ValueError ''style must be one of: professional, casual, technical, academic'')"
  by (simp add: run_validator_def validate_style_def)

lemma validate_error_content_type:
  "field_content_type (body_content_type b) = Inl e \<Longrightarrow>
   \<exists>errs. validate b = Inl errs \<and> (''content_type'', e) \<in> set errs"
  by (simp add: validate_def Let_def errors_at_def split: sum.splits)

lemma validate_error_style:
  "field_style (body_style b) = Inl e \<Longrightarrow>
   \<exists>errs. validate b = Inl errs \<and> (''style'', e) \<in> set errs"
  by (simp add: validate_def Let_def errors_at_def split: sum.splits)

lemma post_summarize_422:
  "validate b = Inl errs \<Longrightarrow> post_summarize backend b = (Http422 errs, [])"
  by (simp add: post_summarize_def)

lemma summarize_returns:
  "50 \<le> length (strip c) \<Longrightarrow> backend (chain_call (chain_input c ct sl st fp)) = Returns t \<Longrightarrow>
   summarize backend c ct sl st fp = (strip t, [chain_call (chain_input c ct sl st fp)])"
  by (auto simp: summarize_def strip_def)

lemma summarize_raises:
  "50 \<le> length (strip c) \<Longrightarrow> backend (chain_call (chain_input c ct sl st fp)) = Raises e \<Longrightarrow>
   summarize backend c ct sl st fp =
     (''Error generating summary: '' @ e, [chain_call (chain_input c ct sl st fp)])"
  by (auto simp: summarize_def strip_def)

lemma create_summary_error:
  "startswith (summarize_text backend r) ''Error'' \<Longrightarrow>
   fst (create_summary backend r) =
     Inl (HTTPException 500 (''Internal server error: 500: '' @ summarize_text backend r))"
  by (simp add: create_summary_def try_body_def digits_500 case_prod_beta Let_def
        summarize_text_def)

lemma create_summary_ok:
  "\<not> startswith (summarize_text backend r) ''Error'' \<Longrightarrow>
   fst (create_summary backend r) =
     Inr \<lparr>summary = summarize_text backend r,
          word_count = int (length (split (summarize_text backend r))),
          char_count = int (length (summarize_text backend r)),
          parameters_used =
            \<lparr>p_content_type = content_type r, p_summary_length = summary_length r,
             p_style = style r, p_focus_points = focus_points r\<rparr>\<rparr>"
  by (simp add: create_summary_def try_body_def case_prod_beta Let_def summarize_text_def)

lemma create_summary_trace:
  "snd (create_summary backend r) =
     Summarize (content r) (content_type r) (summary_length r) (style r) (focus_points r)
     # map Complete (snd (summarize backend (content r) (content_type r) (summary_length r)
         (style r) (focus_points r)))"
  by (simp add: create_summary_def Let_def case_prod_beta split: sum.splits)

lemma create_summary_raised:
  assumes "fst (create_summary backend r) = Inl (HTTPException status_code detail)"
  shows "startswith (summarize_text backend r) ''Error'' \<and> status_code = 500 \<and>
         detail = ''Internal server error: 500: '' @ summarize_text backend r"
proof -
  have e: "startswith (summarize_text backend r) ''Error''"
    using assms create_summary_ok [of backend r] by auto
  from create_summary_error [OF e] assms show ?thesis
    using e by simp
qed

section \<open>Validation of the content length\<close>

text \<open>
  Claim C1, as amended. The validator decides on the length of the content as received,
  without stripping it. For every body whose content has fewer than 50 or more than
  50000 characters, the request is answered 422 with an error located at \<open>content\<close>
  (too short, or too long) and nothing else happens: the summarizer is not called. For
  every body whose content has between 50 and 50000 characters and whose other fields
  are absent, validation succeeds with the defaults.
\<close>

theorem content_length_validation:
  "body_content b = Val c \<Longrightarrow>
   (length c < 50 \<longrightarrow>
      (\<exists>errs. post_summarize backend b = (Http422 ((''content'', MinLength 50) # errs), []))) \<and>
   (length c > 50000 \<longrightarrow>
      (\<exists>errs. post_summarize backend b = (Http422 ((''content'', MaxLength 50000) # errs), []))) \<and>
   (50 \<le> length c \<and> length c \<le> 50000 \<and> body_content_type b = Absent \<and>
    body_summary_length b = Absent \<and> body_style b = Absent \<and> body_focus_points b = Absent \<longrightarrow>
      validate b =
        Inr \<lparr>content = c, content_type = Some ''general'', summary_length = Some 100,
             style = Some ''professional'', focus_points = Some ''main ideas''\<rparr>)"
proof (intro conjI impI)
  assume b: "body_content b = Val c" and "length c < 50"
  then have "field_content (body_content b) = Inl (MinLength 50)"
    by simp
  from validate_content_error [OF this]
  show "\<exists>errs. post_summarize backend b = (Http422 ((''content'', MinLength 50) # errs), [])"
    by (auto simp: post_summarize_def)
next
  assume b: "body_content b = Val c" and "length c > 50000"
  then have "field_content (body_content b) = Inl (MaxLength 50000)"
    by simp
  from validate_content_error [OF this]
  show "\<exists>errs. post_summarize backend b = (Http422 ((''content'', MaxLength 50000) # errs), [])"
    by (auto simp: post_summarize_def)
next
  assume b: "body_content b = Val c"
    and r: "50 \<le> length c \<and> length c \<le> 50000 \<and> body_content_type b = Absent \<and>
      body_summary_length b = Absent \<and> body_style b = Absent \<and> body_focus_points b = Absent"
  then have "field_content (body_content b) = Inr c"
    by simp
  with r show "validate b =
      Inr \<lparr>content = c, content_type = Some ''general'', summary_length = Some 100,
           style = Some ''professional'', focus_points = Some ''main ideas''\<rparr>"
    by (simp add: validate_defaults)
qed

theorem content_length_validation_witness:
  "(\<exists>errs. post_summarize (stub_returns ''never used'') (body_of ''short'') =
      (Http422 ((''content'', MinLength 50) # errs), [])) \<and>
   (\<exists>errs. post_summarize (stub_returns ''never used'') (body_of (replicate 50001 CHR ''A'')) =
      (Http422 ((''content'', MaxLength 50000) # errs), [])) \<and>
   validate (body_of (replicate 100 CHR ''A'')) =
     Inr \<lparr>content = replicate 100 CHR ''A'', content_type = Some ''general'',
          summary_length = Some 100, style = Some ''professional'',
          focus_points = Some ''main ideas''\<rparr>"
  using content_length_validation [of "body_of ''short''" "''short''" "stub_returns ''never used''"]
    content_length_validation [of "body_of (replicate 50001 CHR ''A'')" "replicate 50001 CHR ''A''"
      "stub_returns ''never used''"]
    content_length_validation [of "body_of (replicate 100 CHR ''A'')" "replicate 100 CHR ''A''"
      "stub_returns ''never used''"]
  by (simp add: body_of_def)

text \<open>
  A content of 50 spaces has stripped length 0, yet the validator accepts it and the
  summarizer is called with it.
\<close>

theorem blank_content_accepted:
  "length (strip (replicate 50 CHR '' '')) < 50 \<and>
   validate (body_of (replicate 50 CHR '' '')) =
     Inr \<lparr>content = replicate 50 CHR '' '', content_type = Some ''general'',
          summary_length = Some 100, style = Some ''professional'',
          focus_points = Some ''main ideas''\<rparr> \<and>
   snd (post_summarize (stub_returns ''never used'') (body_of (replicate 50 CHR '' ''))) =
     [Summarize (replicate 50 CHR '' '') (Some ''general'') (Some 100) (Some ''professional'')
        (Some ''main ideas'')]"
proof -
  have s: "strip (replicate 50 CHR '' '') = []"
    by (simp add: strip_def isspace_def)
  have v: "validate (body_of (replicate 50 CHR '' '')) =
     Inr \<lparr>content = replicate 50 CHR '' '', content_type = Some ''general'',
          summary_length = Some 100, style = Some ''professional'',
          focus_points = Some ''main ideas''\<rparr>"
    by (simp add: validate_def body_of_def)
  show ?thesis
    by (simp add: s v post_summarize_def create_summary_def summarize_def try_body_def
          split: prod.splits)
qed

section \<open>Validation of the enumerated fields\<close>

lemma validate_located_content_type:
  "validate b = Inl errs \<Longrightarrow> (''content_type'', e) \<in> set errs \<Longrightarrow>
   field_content_type (body_content_type b) = Inl e"
  by (auto simp: validate_def Let_def errors_at_def split: sum.splits)

lemma validate_located_style:
  "validate b = Inl errs \<Longrightarrow> (''style'', e) \<in> set errs \<Longrightarrow>
   field_style (body_style b) = Inl e"
  by (auto simp: validate_def Let_def errors_at_def split: sum.splits)

lemma content_type_refused:
  "body_content_type b = Null \<or>
   body_content_type b = Val v \<and>
     v \<notin> set [''general'', ''article'', ''email'', ''report'', ''technical'', ''research''] \<Longrightarrow>
   field_content_type (body_content_type b) =
     Inl (ValueError
       ''content_type must be one of: general, article, email, report, technical, research'')"
proof (elim disjE conjE)
  assume "body_content_type b = Null"
  then show ?thesis
    by (simp add: validate_content_type_rejects)
next
  assume v: "body_content_type b = Val v"
    and "v \<notin> set [''general'', ''article'', ''email'', ''report'', ''technical'', ''research'']"
  then have "Some v \<notin> set (map Some
      [''general'', ''article'', ''email'', ''report'', ''technical'', ''research''])"
    by auto
  from validate_content_type_rejects [OF this] v show ?thesis
    by simp
qed

lemma style_refused:
  "body_style b = Null \<or>
   body_style b = Val v \<and> v \<notin> set [''professional'', ''casual'', ''technical'', ''academic''] \<Longrightarrow>
   field_style (body_style b) =
     Inl (ValueError ''style must be one of: professional, casual, technical, academic'')"
proof (elim disjE conjE)
  assume "body_style b = Null"
  then show ?thesis
    by (simp add: validate_style_rejects)
next
  assume v: "body_style b = Val v"
    and "v \<notin> set [''professional'', ''casual'', ''technical'', ''academic'']"
  then have "Some v \<notin> set (map Some [''professional'', ''casual'', ''technical'', ''academic''])"
    by auto
  from validate_style_rejects [OF this] v show ?thesis
    by simp
qed

text \<open>
  Claim C5, as amended. For every body whose \<open>content_type\<close> is \<open>null\<close> or a string
  outside the six allowed values, the request is answered 422 and the errors contain,
  located at \<open>content_type\<close>, the text that ends with the allowed values \<open>general,
  article, email, report, technical, research\<close>; for every body whose \<open>style\<close> is \<open>null\<close>
  or a string outside the four allowed values, the request is answered 422 and the
  errors contain, located at \<open>style\<close>, the text that ends with \<open>professional, casual,
  technical, academic\<close>. A \<open>content_type\<close> or \<open>style\<close> that is an array or an object is
  answered 422 too, with a type error at that field and no error there that carries the
  text of a validator: the allowed values are not listed. In all cases the summarizer is
  not called.
\<close>

theorem enumerated_tags_rejected:
  "(body_content_type b = Null \<or>
    body_content_type b = Val v \<and>
      v \<notin> set [''general'', ''article'', ''email'', ''report'', ''technical'', ''research''] \<longrightarrow>
      (\<exists>errs. post_summarize backend b = (Http422 errs, []) \<and>
         (''content_type'', ValueError
            ''content_type must be one of: general, article, email, report, technical, research'')
           \<in> set errs)) \<and>
   (body_style b = Null \<or>
    body_style b = Val v \<and> v \<notin> set [''professional'', ''casual'', ''technical'', ''academic''] \<longrightarrow>
      (\<exists>errs. post_summarize backend b = (Http422 errs, []) \<and>
         (''style'', ValueError ''style must be one of: professional, casual, technical, academic'')
           \<in> set errs)) \<and>
   (body_content_type b = Other \<longrightarrow>
      (\<exists>errs. post_summarize backend b = (Http422 errs, []) \<and>
         (''content_type'', WrongType) \<in> set errs \<and>
         (\<forall>msg. (''content_type'', ValueError msg) \<notin> set errs))) \<and>
   (body_style b = Other \<longrightarrow>
      (\<exists>errs. post_summarize backend b = (Http422 errs, []) \<and>
         (''style'', WrongType) \<in> set errs \<and>
         (\<forall>msg. (''style'', ValueError msg) \<notin> set errs)))"
proof (intro conjI impI)
  assume "body_content_type b = Null \<or>
    body_content_type b = Val v \<and>
      v \<notin> set [''general'', ''article'', ''email'', ''report'', ''technical'', ''research'']"
  from validate_error_content_type [OF content_type_refused [OF this]] post_summarize_422
  show "\<exists>errs. post_summarize backend b = (Http422 errs, []) \<and>
         (''content_type'', ValueError
            ''content_type must be one of: general, article, email, report, technical, research'')
           \<in> set errs"
    by blast
next
  assume "body_style b = Null \<or>
    body_style b = Val v \<and> v \<notin> set [''professional'', ''casual'', ''technical'', ''academic'']"
  from validate_error_style [OF style_refused [OF this]] post_summarize_422
  show "\<exists>errs. post_summarize backend b = (Http422 errs, []) \<and>
         (''style'', ValueError ''style must be one of: professional, casual, technical, academic'')
           \<in> set errs"
    by blast
next
  assume "body_content_type b = Other"
  then have f: "field_content_type (body_content_type b) = Inl WrongType"
    by simp
  from validate_error_content_type [OF f] obtain errs
    where v: "validate b = Inl errs" and m: "(''content_type'', WrongType) \<in> set errs"
    by blast
  have "(''content_type'', ValueError msg) \<notin> set errs" for msg
    using validate_located_content_type [OF v, of "ValueError msg"] f by auto
  with m post_summarize_422 [OF v]
  show "\<exists>errs. post_summarize backend b = (Http422 errs, []) \<and>
         (''content_type'', WrongType) \<in> set errs \<and>
         (\<forall>msg. (''content_type'', ValueError msg) \<notin> set errs)"
    by blast
next
  assume "body_style b = Other"
  then have f: "field_style (body_style b) = Inl WrongType"
    by simp
  from validate_error_style [OF f] obtain errs
    where v: "validate b = Inl errs" and m: "(''style'', WrongType) \<in> set errs"
    by blast
  have "(''style'', ValueError msg) \<notin> set errs" for msg
    using validate_located_style [OF v, of "ValueError msg"] f by auto
  with m post_summarize_422 [OF v]
  show "\<exists>errs. post_summarize backend b = (Http422 errs, []) \<and>
         (''style'', WrongType) \<in> set errs \<and>
         (\<forall>msg. (''style'', ValueError msg) \<notin> set errs)"
    by blast
qed

theorem enumerated_tags_rejected_witness:
  "(\<exists>errs. post_summarize (stub_returns ''never used'')
        ((body_of (replicate 100 CHR ''A'')) \<lparr>body_content_type := Val ''poetry''\<rparr>) =
          (Http422 errs, []) \<and>
      (''content_type'', ValueError
         ''content_type must be one of: general, article, email, report, technical, research'')
        \<in> set errs) \<and>
   (\<exists>errs. post_summarize (stub_returns ''never used'')
        ((body_of (replicate 100 CHR ''A'')) \<lparr>body_style := Val ''poetry''\<rparr>) =
          (Http422 errs, []) \<and>
      (''style'', ValueError ''style must be one of: professional, casual, technical, academic'')
        \<in> set errs) \<and>
   (\<exists>errs. post_summarize (stub_returns ''never used'')
        ((body_of (replicate 100 CHR ''A'')) \<lparr>body_content_type := Other\<rparr>) =
          (Http422 errs, []) \<and>
      (''content_type'', WrongType) \<in> set errs \<and>
      (\<forall>msg. (''content_type'', ValueError msg) \<notin> set errs)) \<and>
   (\<exists>errs. post_summarize (stub_returns ''never used'')
        ((body_of (replicate 100 CHR ''A'')) \<lparr>body_style := Other\<rparr>) =
          (Http422 errs, []) \<and>
      (''style'', WrongType) \<in> set errs \<and>
      (\<forall>msg. (''style'', ValueError msg) \<notin> set errs))"
  using enumerated_tags_rejected
      [of "(body_of (replicate 100 CHR ''A'')) \<lparr>body_content_type := Val ''poetry''\<rparr>"
        "''poetry''" "stub_returns ''never used''"]
    enumerated_tags_rejected
      [of "(body_of (replicate 100 CHR ''A'')) \<lparr>body_style := Val ''poetry''\<rparr>"
        "''poetry''" "stub_returns ''never used''"]
    enumerated_tags_rejected
      [of "(body_of (replicate 100 CHR ''A'')) \<lparr>body_content_type := Other\<rparr>"
        "''poetry''" "stub_returns ''never used''"]
    enumerated_tags_rejected
      [of "(body_of (replicate 100 CHR ''A'')) \<lparr>body_style := Other\<rparr>"
        "''poetry''" "stub_returns ''never used''"]
  by (simp add: body_of_def)

text \<open>
  A \<open>content_type\<close> that is an array (such as \<open>["general"]\<close>) is not one of the allowed
  values, and the only error of the 422 answer is the type error: no error text lists
  the allowed values.
\<close>

theorem array_content_type_error_has_no_list:
  "post_summarize (stub_returns ''never used'')
     ((body_of (replicate 100 CHR ''A'')) \<lparr>body_content_type := Other\<rparr>) =
     (Http422 [(''content_type'', WrongType)], [])"
  by (simp add: post_summarize_def validate_def body_of_def errors_at_def)

section \<open>Failures of the model backend\<close>

text \<open>
  Claim C2. For every request whose content passes the summarizer's own length check
  (so that the backend is called) and every backend that raises on that call, with
  error text \<open>e\<close>: \<open>create_summary\<close> raises the \<open>HTTPException\<close> with status 500 whose
  detail is \<open>Internal server error: 500: Error generating summary: \<close> followed by \<open>e\<close>, so
  the detail contains \<open>e\<close>; the backend's exception does not escape and no response is
  returned. The summarizer was called once and the backend once.
\<close>

theorem backend_failure_is_server_error:
  "50 \<le> length (strip (content r)) \<Longrightarrow> backend (call_of r) = Raises e \<Longrightarrow>
   create_summary backend r =
     (Inl (HTTPException 500 (''Internal server error: 500: Error generating summary: '' @ e)),
      [Summarize (content r) (content_type r) (summary_length r) (style r) (focus_points r),
       Complete (call_of r)]) \<and>
   sublist e (''Internal server error: 500: Error generating summary: '' @ e)"
proof -
  assume len: "50 \<le> length (strip (content r))" and raises: "backend (call_of r) = Raises e"
  have s: "summarize backend (content r) (content_type r) (summary_length r) (style r)
      (focus_points r) = (''Error generating summary: '' @ e, [call_of r])"
    using summarize_raises [OF len] raises by (simp add: call_of_def)
  then have t: "summarize_text backend r = ''Error generating summary: '' @ e"
    by (simp add: summarize_text_def)
  have "fst (create_summary backend r) =
      Inl (HTTPException 500 (''Internal server error: 500: Error generating summary: '' @ e))"
    using create_summary_error [of backend r] by (simp add: t)
  moreover have "snd (create_summary backend r) =
      [Summarize (content r) (content_type r) (summary_length r) (style r) (focus_points r),
       Complete (call_of r)]"
    by (simp add: create_summary_trace s)
  moreover have "sublist e (''Internal server error: 500: Error generating summary: '' @ e)"
    using sublist_appendI [of e "''Internal server error: 500: Error generating summary: ''" "[]"]
    by simp
  ultimately show ?thesis
    by (simp add: prod_eq_iff)
qed

theorem backend_failure_is_server_error_witness:
  "50 \<le> length (strip (content request_A)) \<and>
   stub_raises ''Connection refused'' (call_of request_A) = Raises ''Connection refused'' \<and>
   fst (create_summary (stub_raises ''Connection refused'') request_A) =
     Inl (HTTPException 500
       ''Internal server error: 500: Error generating summary: Connection refused'')"
proof -
  have len: "50 \<le> length (strip (content request_A))"
    by (simp add: request_A_def strip_A)
  have raises: "stub_raises ''Connection refused'' (call_of request_A) = Raises ''Connection refused''"
    by (simp add: stub_raises_def)
  from backend_failure_is_server_error
      [of request_A "stub_raises ''Connection refused''" "''Connection refused''"]
    len raises
  show ?thesis
    by simp
qed

section \<open>Normalization of the completion\<close>

text \<open>
  Claim C4. For every request whose content passes the summarizer's length check and
  every backend that returns the text \<open>t\<close> for it, where the stripped \<open>t\<close> does not start
  with \<open>Error\<close>: \<open>create_summary\<close> returns the response whose summary is \<open>t\<close> stripped,
  whose word count is the number of non-empty pieces of the summary between whitespace
  characters (\<open>token_count\<close>), and whose character count is the length of the summary.
  All three are functions of \<open>t\<close> alone.
\<close>

theorem normalization_of_completion:
  "50 \<le> length (strip (content r)) \<Longrightarrow> backend (call_of r) = Returns t \<Longrightarrow>
   \<not> startswith (strip t) ''Error'' \<Longrightarrow>
   fst (create_summary backend r) =
     Inr \<lparr>summary = strip t, word_count = int (token_count (strip t)),
          char_count = int (length (strip t)),
          parameters_used =
            \<lparr>p_content_type = content_type r, p_summary_length = summary_length r,
             p_style = style r, p_focus_points = focus_points r\<rparr>\<rparr>"
proof -
  assume len: "50 \<le> length (strip (content r))" and returns: "backend (call_of r) = Returns t"
    and ok: "\<not> startswith (strip t) ''Error''"
  have "summarize_text backend r = strip t"
    using summarize_returns [OF len] returns by (simp add: call_of_def summarize_text_def)
  with ok create_summary_ok [of backend r] show ?thesis
    by (simp add: length_split)
qed

theorem normalization_of_completion_witness:
  "50 \<le> length (strip (content request_A)) \<and>
   stub_returns ''  Two words  '' (call_of request_A) = Returns ''  Two words  '' \<and>
   \<not> startswith (strip ''  Two words  '') ''Error'' \<and>
   fst (create_summary (stub_returns ''  Two words  '') request_A) =
     Inr \<lparr>summary = ''Two words'', word_count = 2, char_count = 9,
          parameters_used =
            \<lparr>p_content_type = Some ''general'', p_summary_length = Some 50,
             p_style = Some ''professional'', p_focus_points = Some ''main ideas''\<rparr>\<rparr>"
proof -
  have len: "50 \<le> length (strip (content request_A))"
    by (simp add: request_A_def strip_A)
  have returns: "stub_returns ''  Two words  '' (call_of request_A) = Returns ''  Two words  ''"
    by (simp add: stub_returns_def)
  have s: "strip ''  Two words  '' = ''Two words''"
    by (simp add: strip_def isspace_def)
  have ok: "\<not> startswith (strip ''  Two words  '') ''Error''"
    by (simp add: s)
  have n: "token_count ''Two words'' = 2"
    by (simp add: token_count_def isspace_def)
  from normalization_of_completion
      [of request_A "stub_returns ''  Two words  ''" "''  Two words  ''"]
    len returns ok
  show ?thesis
    by (simp add: s n request_A_def)
qed

section \<open>Completions that start with Error\<close>

text \<open>
  Claim C7, as amended. Success and failure are told apart by whether the text returned
  by the summarizer starts with \<open>Error\<close>. For every request whose content passes the
  summarizer's length check and every backend that returns the text \<open>t\<close> for it:
  \<open>create_summary\<close> returns a response exactly when the stripped \<open>t\<close> does not start with
  \<open>Error\<close>, and when it does, \<open>create_summary\<close> raises the \<open>HTTPException\<close> with status
  500 and detail \<open>Internal server error: 500: \<close> followed by the stripped \<open>t\<close>.
\<close>

theorem error_prefix_decides:
  "50 \<le> length (strip (content r)) \<Longrightarrow> backend (call_of r) = Returns t \<Longrightarrow>
   (startswith (strip t) ''Error'' \<longrightarrow>
      fst (create_summary backend r) =
        Inl (HTTPException 500 (''Internal server error: 500: '' @ strip t))) \<and>
   (\<not> startswith (strip t) ''Error'' \<longrightarrow>
      (\<exists>response. fst (create_summary backend r) = Inr response \<and> summary response = strip t))"
proof -
  assume len: "50 \<le> length (strip (content r))" and returns: "backend (call_of r) = Returns t"
  have "summarize_text backend r = strip t"
    using summarize_returns [OF len] returns by (simp add: call_of_def summarize_text_def)
  with create_summary_ok [of backend r] create_summary_error [of backend r] show ?thesis
    by simp
qed

theorem error_prefix_decides_witness:
  "50 \<le> length (strip (content request_A)) \<and>
   fst (create_summary (stub_returns ''Errors were rare.'') request_A) =
     Inl (HTTPException 500 ''Internal server error: 500: Errors were rare.'') \<and>
   (\<exists>response. fst (create_summary (stub_returns ''Few errors.'') request_A) = Inr response \<and>
      summary response = ''Few errors.'')"
proof -
  have len: "50 \<le> length (strip (content request_A))"
    by (simp add: request_A_def strip_A)
  have r1: "stub_returns ''Errors were rare.'' (call_of request_A) = Returns ''Errors were rare.''"
    and r2: "stub_returns ''Few errors.'' (call_of request_A) = Returns ''Few errors.''"
    by (simp_all add: stub_returns_def)
  have s1: "strip ''Errors were rare.'' = ''Errors were rare.''"
    and s2: "strip ''Few errors.'' = ''Few errors.''"
    by (simp_all add: strip_def isspace_def)
  from error_prefix_decides [of request_A "stub_returns ''Errors were rare.''" "''Errors were rare.''"]
    error_prefix_decides [of request_A "stub_returns ''Few errors.''" "''Few errors.''"]
    len r1 r2
  show ?thesis
    by (simp add: s1 s2)
qed

text \<open>
  A backend that succeeds with the summary \<open>Error rates fell sharply this year.\<close> gets
  the server error, not a response.
\<close>

theorem summary_starting_with_Error_is_failure:
  "fst (create_summary (stub_returns ''Error rates fell sharply this year.'') request_A) =
     Inl (HTTPException 500 ''Internal server error: 500: Error rates fell sharply this year.'')"
  by (simp add: create_summary_def request_A_def stub_returns_def summarize_def strip_A
        try_body_def strip_def isspace_def digits_500)

section \<open>The detail of a server error\<close>

text \<open>
  Claim C10. Every response of \<open>POST /summarize\<close> that comes from an \<open>HTTPException\<close>
  raised by the handler has status 500 and a detail that starts with
  \<open>Internal server error: \<close>: the body was valid, the summarizer returned a text that
  starts with \<open>Error\<close>, and the detail is that text behind \<open>Internal server error: 500: \<close>,
  never the text itself.
\<close>

theorem server_error_detail_is_wrapped:
  "post_summarize backend b = (HttpError status_code detail, trace) \<Longrightarrow>
   status_code = 500 \<and> startswith detail ''Internal server error: '' \<and>
   (\<exists>r. validate b = Inr r \<and> startswith (summarize_text backend r) ''Error'' \<and>
        detail = ''Internal server error: 500: '' @ summarize_text backend r \<and>
        detail \<noteq> summarize_text backend r)"
proof -
  assume a: "post_summarize backend b = (HttpError status_code detail, trace)"
  then obtain r where v: "validate b = Inr r"
    by (cases "validate b") (auto simp: post_summarize_def)
  with a have "fst (create_summary backend r) = Inl (HTTPException status_code detail)"
    by (auto simp: post_summarize_def split: prod.splits sum.splits http_exception.splits)
  from create_summary_raised [OF this]
  have e: "startswith (summarize_text backend r) ''Error''" and st: "status_code = 500"
    and d: "detail = ''Internal server error: 500: '' @ summarize_text backend r"
    by simp_all
  have "startswith detail ''Internal server error: ''"
    by (simp add: d)
  moreover have "detail \<noteq> summarize_text backend r"
    using e d by (cases "summarize_text backend r") auto
  ultimately show ?thesis
    using v e st d by blast
qed

theorem server_error_detail_is_wrapped_witness:
  "post_summarize (stub_raises ''Connection refused'') (body_of (replicate 100 CHR ''A'')) =
     (HttpError 500 ''Internal server error: 500: Error generating summary: Connection refused'',
      snd (post_summarize (stub_raises ''Connection refused'') (body_of (replicate 100 CHR ''A'')))) \<and>
   startswith ''Internal server error: 500: Error generating summary: Connection refused''
     ''Internal server error: ''"
proof -
  have p: "post_summarize (stub_raises ''Connection refused'') (body_of (replicate 100 CHR ''A'')) =
     (HttpError 500 ''Internal server error: 500: Error generating summary: Connection refused'',
      snd (post_summarize (stub_raises ''Connection refused'') (body_of (replicate 100 CHR ''A''))))"
    by (simp add: post_summarize_def validate_def body_of_def create_summary_def summarize_def
          strip_A stub_raises_def try_body_def digits_500 Let_def)
  from server_error_detail_is_wrapped [OF p] p show ?thesis
    by simp
qed

section \<open>Facts about the prompt\<close>

lemma user_text_chain_call: "user_text (chain_call x) = user_message x x x x x"
  by (simp add: user_text_def chain_call_def RunnablePassthrough_def)

lemma repr_key_content: "repr_str ''content'' = CHR 0x27 # ''content'' @ [CHR 0x27]"
  by (simp add: repr_str_def escape_char_def isprintable_def Let_def)

lemma repr_key_content_type:
  "repr_str ''content_type'' = CHR 0x27 # ''content_type'' @ [CHR 0x27]"
  by (simp add: repr_str_def escape_char_def isprintable_def Let_def)

lemma repr_key_summary_length:
  "repr_str ''summary_length'' = CHR 0x27 # ''summary_length'' @ [CHR 0x27]"
  by (simp add: repr_str_def escape_char_def isprintable_def Let_def)

lemma repr_key_style: "repr_str ''style'' = CHR 0x27 # ''style'' @ [CHR 0x27]"
  by (simp add: repr_str_def escape_char_def isprintable_def Let_def)

lemma repr_key_focus_points:
  "repr_str ''focus_points'' = CHR 0x27 # ''focus_points'' @ [CHR 0x27]"
  by (simp add: repr_str_def escape_char_def isprintable_def Let_def)

lemma py_repr_chain_input:
  "py_repr (chain_input c ct sl st fp) =
     ''{'' @ CHR 0x27 # ''content'' @ CHR 0x27 # '': '' @ repr_str c @
     '', '' @ CHR 0x27 # ''content_type'' @ CHR 0x27 # '': '' @ py_repr (opt_str ct) @
     '', '' @ CHR 0x27 # ''summary_length'' @ CHR 0x27 # '': '' @ py_repr (opt_int sl) @
     '', '' @ CHR 0x27 # ''style'' @ CHR 0x27 # '': '' @ py_repr (opt_str st) @
     '', '' @ CHR 0x27 # ''focus_points'' @ CHR 0x27 # '': '' @ py_repr (opt_str fp) @ ''}''"
  by (simp add: chain_input_def repr_key_content repr_key_content_type repr_key_summary_length
        repr_key_style repr_key_focus_points)

lemma py_str_chain_input:
  "py_str (chain_input c ct sl st fp) = py_repr (chain_input c ct sl st fp)"
  by (simp add: chain_input_def)

lemma user_message_starts:
  "startswith (user_message (chain_input c ct sl st fp) v2 v3 v4 v5)
     (''Content Type: {'' @ CHR 0x27 # ''content'' @ CHR 0x27 # '': '')"
  by (simp add: user_message_def py_str_chain_input py_repr_chain_input)

lemma sublist_user_message: "sublist (py_str v) (user_message v v2 v3 v4 v5)"
proof -
  have "\<exists>ss. user_message v v2 v3 v4 v5 = ''Content Type: '' @ py_str v @ ss"
    by (simp add: user_message_def)
  then show ?thesis
    unfolding sublist_def by blast
qed

lemma sublist_summary_length_None:
  "sublist (CHR 0x27 # ''summary_length'' @ CHR 0x27 # '': None'')
     (py_repr (chain_input c ct None st fp))"
proof -
  have "py_repr (chain_input c ct None st fp) =
      (''{'' @ CHR 0x27 # ''content'' @ CHR 0x27 # '': '' @ repr_str c @
       '', '' @ CHR 0x27 # ''content_type'' @ CHR 0x27 # '': '' @ py_repr (opt_str ct) @ '', '')
      @ (CHR 0x27 # ''summary_length'' @ CHR 0x27 # '': None'')
      @ ('', '' @ CHR 0x27 # ''style'' @ CHR 0x27 # '': '' @ py_repr (opt_str st) @
         '', '' @ CHR 0x27 # ''focus_points'' @ CHR 0x27 # '': '' @ py_repr (opt_str fp) @ ''}'')"
    by (simp add: py_repr_chain_input opt_int_def)
  then show ?thesis
    unfolding sublist_def by blast
qed

lemma sublist_focus_points_None:
  "sublist (CHR 0x27 # ''focus_points'' @ CHR 0x27 # '': None'')
     (py_repr (chain_input c ct sl st None))"
proof -
  have "py_repr (chain_input c ct sl st None) =
      (''{'' @ CHR 0x27 # ''content'' @ CHR 0x27 # '': '' @ repr_str c @
       '', '' @ CHR 0x27 # ''content_type'' @ CHR 0x27 # '': '' @ py_repr (opt_str ct) @
       '', '' @ CHR 0x27 # ''summary_length'' @ CHR 0x27 # '': '' @ py_repr (opt_int sl) @
       '', '' @ CHR 0x27 # ''style'' @ CHR 0x27 # '': '' @ py_repr (opt_str st) @ '', '')
      @ (CHR 0x27 # ''focus_points'' @ CHR 0x27 # '': None'')
      @ ''}''"
    by (simp add: py_repr_chain_input opt_str_def)
  then show ?thesis
    unfolding sublist_def by blast
qed

lemma digits_subset: "set (digits n) \<subseteq> set ''0123456789''"
proof (induction n rule: digits.induct)
  case (1 n)
  have m: "''0123456789'' ! (n mod 10) \<in> set ''0123456789''"
    by (rule nth_mem) simp
  show ?case
  proof (cases "n < 10")
    case True
    then have "''0123456789'' ! n \<in> set ''0123456789''"
      by (intro nth_mem) simp
    with True show ?thesis
      by (subst digits.simps) simp
  next
    case False
    with 1 have "set (digits (n div 10)) \<subseteq> set ''0123456789''"
      by simp
    with False m show ?thesis
      by (subst digits.simps) simp
  qed
qed

lemma tab_notin_digits: "CHR 0x09 \<notin> set (digits n)"
  using digits_subset [of n] by auto

lemma of_char_less_256: "(of_char c :: nat) < 256"
  by (cases c) simp

lemma hex2_subset: "set (hex2 c) \<subseteq> set ''0123456789abcdef''"
proof -
  have "(of_char c :: nat) div 16 < 16"
    using of_char_less_256 [of c] by presburger
  then have a: "''0123456789abcdef'' ! (of_char c div 16) \<in> set ''0123456789abcdef''"
    by (intro nth_mem) simp
  have b: "''0123456789abcdef'' ! (of_char c mod 16) \<in> set ''0123456789abcdef''"
    by (rule nth_mem) simp
  from a b show ?thesis
    by (simp add: hex2_def)
qed

lemma tab_notin_escape_char: "q \<noteq> CHR 0x09 \<Longrightarrow> CHR 0x09 \<notin> set (escape_char q c)"
  using hex2_subset [of c] by (auto simp: escape_char_def)

lemma tab_notin_repr_str: "CHR 0x09 \<notin> set (repr_str s)"
  by (auto simp: repr_str_def Let_def tab_notin_escape_char)

lemma tab_notin_opt_str: "CHR 0x09 \<notin> set (py_repr (opt_str v))"
  by (cases v) (simp_all add: opt_str_def tab_notin_repr_str)

lemma tab_notin_opt_int: "CHR 0x09 \<notin> set (py_repr (opt_int v))"
  by (cases v) (simp_all add: opt_int_def str_int_def tab_notin_digits)

lemma tab_notin_chain_input: "CHR 0x09 \<notin> set (py_repr (chain_input c ct sl st fp))"
  by (simp add: py_repr_chain_input tab_notin_repr_str tab_notin_opt_str tab_notin_opt_int)

lemma tab_notin_user_message:
  "CHR 0x09 \<notin> set (user_message (chain_input c ct sl st fp) (chain_input c ct sl st fp)
     (chain_input c ct sl st fp) (chain_input c ct sl st fp) (chain_input c ct sl st fp))"
  by (simp add: user_message_def py_str_chain_input tab_notin_chain_input)

lemma summarize_calls:
  "50 \<le> length (strip c) \<Longrightarrow>
   snd (summarize backend c ct sl st fp) = [chain_call (chain_input c ct sl st fp)]"
  by (auto simp: summarize_def strip_def Let_def split: backend_result.splits)

lemma strip_content_with_tab: "strip content_with_tab = content_with_tab"
  by (rule strip_nonspace) (simp_all add: content_with_tab_def isspace_def)

lemma validate_null_summary_length:
  "validate (b\<lparr>body_summary_length := Absent\<rparr>) = Inr r \<Longrightarrow>
   summary_length r = Some 100 \<and>
   validate (b\<lparr>body_summary_length := Null\<rparr>) = Inr (r\<lparr>summary_length := None\<rparr>)"
  by (auto simp: validate_def Let_def split: sum.splits)

lemma validate_null_focus_points:
  "validate (b\<lparr>body_focus_points := Absent\<rparr>) = Inr r \<Longrightarrow>
   focus_points r = Some ''main ideas'' \<and>
   validate (b\<lparr>body_focus_points := Null\<rparr>) = Inr (r\<lparr>focus_points := None\<rparr>)"
  by (auto simp: validate_def Let_def split: sum.splits)

lemma validate_absent_content_type:
  "validate b = Inr r \<Longrightarrow> body_content_type b = Absent \<Longrightarrow> content_type r = Some ''general''"
  by (auto simp: validate_def Let_def split: sum.splits)

lemma validate_absent_style:
  "validate b = Inr r \<Longrightarrow> body_style b = Absent \<Longrightarrow> style r = Some ''professional''"
  by (auto simp: validate_def Let_def split: sum.splits)

lemma post_summarize_trace:
  "validate b = Inr r \<Longrightarrow> 50 \<le> length (strip (content r)) \<Longrightarrow>
   snd (post_summarize backend b) =
     [Summarize (content r) (content_type r) (summary_length r) (style r) (focus_points r),
      Complete (call_of r)]"
proof -
  assume v: "validate b = Inr r" and len: "50 \<le> length (strip (content r))"
  have "snd (post_summarize backend b) = snd (create_summary backend r)"
    by (simp add: post_summarize_def v split: prod.splits sum.splits http_exception.splits)
  then show ?thesis
    by (simp add: create_summary_trace summarize_calls [OF len] call_of_def)
qed

lemma prompt_has_summary_length_None:
  "summary_length r = None \<Longrightarrow>
   sublist (CHR 0x27 # ''summary_length'' @ CHR 0x27 # '': None'') (user_text (call_of r))"
proof -
  assume n: "summary_length r = None"
  let ?d = "chain_input (content r) (content_type r) None (style r) (focus_points r)"
  have "sublist (py_str ?d) (user_text (call_of r))"
    by (simp add: call_of_def n user_text_chain_call sublist_user_message)
  with sublist_summary_length_None [of "content r" "content_type r" "style r" "focus_points r"]
  show ?thesis
    by (simp add: py_str_chain_input)
qed

lemma prompt_has_focus_points_None:
  "focus_points r = None \<Longrightarrow>
   sublist (CHR 0x27 # ''focus_points'' @ CHR 0x27 # '': None'') (user_text (call_of r))"
proof -
  assume n: "focus_points r = None"
  let ?d = "chain_input (content r) (content_type r) (summary_length r) (style r) None"
  have "sublist (py_str ?d) (user_text (call_of r))"
    by (simp add: call_of_def n user_text_chain_call sublist_user_message)
  with sublist_focus_points_None [of "content r" "content_type r" "summary_length r" "style r"]
  show ?thesis
    by (simp add: py_str_chain_input)
qed

section \<open>The prompt sent to the backend\<close>

text \<open>
  Claim C6 says that the user message embeds, in order, the content type, the raw
  content and the requirements (word count, style, focus areas), and that the two
  messages are sent with a fixed model and temperature. What the code does: for every
  request whose content passes the summarizer's length check, one call is made to the
  backend, with the model \<open>gpt-3.5-turbo\<close>, the temperature 0.3 and the two messages
  (system, user); but the user message is the template with, in each of its five slots,
  the text of the whole dictionary given to \<open>chain.invoke\<close>. It starts with
  \<open>Content Type: {'content': \<close> and not with the content type, and a content with a tab
  character does not occur in it (the dictionary text writes the tab as \<open>\t\<close>).
\<close>

theorem prompt_slots_hold_whole_input:
  "50 \<le> length (strip (content r)) \<Longrightarrow>
   snd (create_summary backend r) =
     [Summarize (content r) (content_type r) (summary_length r) (style r) (focus_points r),
      Complete (call_of r)] \<and>
   model (call_of r) = ''gpt-3.5-turbo'' \<and> temperature (call_of r) = 3 / 10 \<and>
   messages (call_of r) = [(''system'', system_message), (''user'', user_text (call_of r))] \<and>
   startswith (user_text (call_of r))
     (''Content Type: {'' @ CHR 0x27 # ''content'' @ CHR 0x27 # '': '') \<and>
   (CHR 0x09 \<in> set (content r) \<longrightarrow> \<not> sublist (content r) (user_text (call_of r)))"
proof -
  assume len: "50 \<le> length (strip (content r))"
  have trace: "snd (create_summary backend r) =
     [Summarize (content r) (content_type r) (summary_length r) (style r) (focus_points r),
      Complete (call_of r)]"
    by (simp add: create_summary_trace summarize_calls [OF len] call_of_def)
  have config: "model (call_of r) = ''gpt-3.5-turbo'' \<and> temperature (call_of r) = 3 / 10 \<and>
      messages (call_of r) = [(''system'', system_message), (''user'', user_text (call_of r))]"
    by (simp add: call_of_def chain_call_def user_text_def)
  have starts: "startswith (user_text (call_of r))
      (''Content Type: {'' @ CHR 0x27 # ''content'' @ CHR 0x27 # '': '')"
    unfolding call_of_def user_text_chain_call by (rule user_message_starts)
  have no_tab: "CHR 0x09 \<notin> set (user_text (call_of r))"
    unfolding call_of_def user_text_chain_call by (rule tab_notin_user_message)
  have "\<not> sublist (content r) (user_text (call_of r))" if "CHR 0x09 \<in> set (content r)"
    using that no_tab set_mono_sublist [of "content r" "user_text (call_of r)"] by auto
  with trace config starts show ?thesis
    by blast
qed

theorem prompt_slots_hold_whole_input_witness:
  "50 \<le> length (strip (content request_with_tab)) \<and>
   CHR 0x09 \<in> set (content request_with_tab) \<and>
   startswith (user_text (call_of request_with_tab))
     (''Content Type: {'' @ CHR 0x27 # ''content'' @ CHR 0x27 # '': '') \<and>
   \<not> sublist (content request_with_tab) (user_text (call_of request_with_tab))"
proof -
  have len: "50 \<le> length (strip (content request_with_tab))"
    by (simp add: request_with_tab_def strip_content_with_tab) (simp add: content_with_tab_def)
  have tab: "CHR 0x09 \<in> set (content request_with_tab)"
    by (simp add: request_with_tab_def content_with_tab_def)
  from prompt_slots_hold_whole_input [OF len] len tab show ?thesis
    by blast
qed

section \<open>Null is not absent\<close>

text \<open>
  Claim C9. A body with \<open>null\<close> for \<open>content_type\<close>, or for \<open>style\<close>, is answered 422
  with the error of that field's validator. A body that is accepted with
  \<open>summary_length\<close> absent gets the default 100 and is also accepted with \<open>null\<close> there,
  the request then holding \<open>None\<close> in place of 100; the same for \<open>focus_points\<close> and its
  default \<open>main ideas\<close>. An accepted body with \<open>content_type\<close> or \<open>style\<close> absent holds
  their defaults. The handler passes the fields of the request as they are to the
  summarizer, and through it to the backend: a \<open>None\<close> appears in the user message as
  \<open>'summary_length': None\<close>, respectively \<open>'focus_points': None\<close>.
\<close>

theorem null_is_not_absent:
  "(body_content_type b = Null \<longrightarrow>
      (\<exists>errs. post_summarize backend b = (Http422 errs, []) \<and>
         (''content_type'', ValueError
            ''content_type must be one of: general, article, email, report, technical, research'')
           \<in> set errs)) \<and>
   (body_style b = Null \<longrightarrow>
      (\<exists>errs. post_summarize backend b = (Http422 errs, []) \<and>
         (''style'', ValueError ''style must be one of: professional, casual, technical, academic'')
           \<in> set errs)) \<and>
   (validate (b\<lparr>body_summary_length := Absent\<rparr>) = Inr r \<longrightarrow>
      summary_length r = Some 100 \<and>
      validate (b\<lparr>body_summary_length := Null\<rparr>) = Inr (r\<lparr>summary_length := None\<rparr>)) \<and>
   (validate (b\<lparr>body_focus_points := Absent\<rparr>) = Inr r \<longrightarrow>
      focus_points r = Some ''main ideas'' \<and>
      validate (b\<lparr>body_focus_points := Null\<rparr>) = Inr (r\<lparr>focus_points := None\<rparr>)) \<and>
   (validate b = Inr r \<and> body_content_type b = Absent \<longrightarrow> content_type r = Some ''general'') \<and>
   (validate b = Inr r \<and> body_style b = Absent \<longrightarrow> style r = Some ''professional'') \<and>
   (validate b = Inr r \<and> 50 \<le> length (strip (content r)) \<longrightarrow>
      snd (post_summarize backend b) =
        [Summarize (content r) (content_type r) (summary_length r) (style r) (focus_points r),
         Complete (call_of r)] \<and>
      (summary_length r = None \<longrightarrow>
         sublist (CHR 0x27 # ''summary_length'' @ CHR 0x27 # '': None'') (user_text (call_of r))) \<and>
      (focus_points r = None \<longrightarrow>
         sublist (CHR 0x27 # ''focus_points'' @ CHR 0x27 # '': None'') (user_text (call_of r))))"
proof (intro conjI impI)
  assume "body_content_type b = Null"
  then have "field_content_type (body_content_type b) =
    Inl (ValueError
      ''content_type must be one of: general, article, email, report, technical, research'')"
    by (simp add: validate_content_type_rejects)
  from validate_error_content_type [OF this] post_summarize_422
  show "\<exists>errs. post_summarize backend b = (Http422 errs, []) \<and>
         (''content_type'', ValueError
            ''content_type must be one of: general, article, email, report, technical, research'')
           \<in> set errs"
    by blast
next
  assume "body_style b = Null"
  then have "field_style (body_style b) =
    Inl (ValueError ''style must be one of: professional, casual, technical, academic'')"
    by (simp add: validate_style_rejects)
  from validate_error_style [OF this] post_summarize_422
  show "\<exists>errs. post_summarize backend b = (Http422 errs, []) \<and>
         (''style'', ValueError ''style must be one of: professional, casual, technical, academic'')
           \<in> set errs"
    by blast
qed (auto simp: validate_null_summary_length validate_null_focus_points post_summarize_trace
      prompt_has_summary_length_None [simplified] prompt_has_focus_points_None [simplified]
      dest: validate_absent_content_type validate_absent_style)

theorem null_is_not_absent_witness:
  "(\<exists>errs. post_summarize (stub_returns ''A summary.'')
        ((body_of (replicate 100 CHR ''A'')) \<lparr>body_content_type := Null\<rparr>) = (Http422 errs, []) \<and>
      (''content_type'', ValueError
         ''content_type must be one of: general, article, email, report, technical, research'')
        \<in> set errs) \<and>
   (\<exists>errs. post_summarize (stub_returns ''A summary.'')
        ((body_of (replicate 100 CHR ''A'')) \<lparr>body_style := Null\<rparr>) = (Http422 errs, []) \<and>
      (''style'', ValueError ''style must be one of: professional, casual, technical, academic'')
        \<in> set errs) \<and>
   validate ((body_of (replicate 100 CHR ''A''))
       \<lparr>body_summary_length := Null, body_focus_points := Null\<rparr>) = Inr request_with_None \<and>
   validate (body_of (replicate 100 CHR ''A'')) =
     Inr (request_with_None \<lparr>summary_length := Some 100, focus_points := Some ''main ideas''\<rparr>) \<and>
   snd (post_summarize (stub_returns ''A summary.'')
     ((body_of (replicate 100 CHR ''A''))
        \<lparr>body_summary_length := Null, body_focus_points := Null\<rparr>)) =
     [Summarize (replicate 100 CHR ''A'') (Some ''general'') None (Some ''professional'') None,
      Complete (call_of request_with_None)] \<and>
   sublist (CHR 0x27 # ''summary_length'' @ CHR 0x27 # '': None'')
     (user_text (call_of request_with_None)) \<and>
   sublist (CHR 0x27 # ''focus_points'' @ CHR 0x27 # '': None'')
     (user_text (call_of request_with_None))"
proof -
  let ?A = "replicate 100 CHR ''A''"
  let ?stub = "stub_returns ''A summary.''"
  let ?b = "(body_of ?A) \<lparr>body_summary_length := Null, body_focus_points := Null\<rparr>"
  have v: "validate ?b = Inr request_with_None"
    by (simp add: validate_def body_of_def request_with_None_def)
  have v0: "validate (body_of ?A) =
      Inr (request_with_None \<lparr>summary_length := Some 100, focus_points := Some ''main ideas''\<rparr>)"
    by (simp add: validate_def body_of_def request_with_None_def)
  have len: "50 \<le> length (strip (content request_with_None))"
    by (simp add: request_with_None_def strip_A)
  have n: "summary_length request_with_None = None" "focus_points request_with_None = None"
    by (simp_all add: request_with_None_def)
  from null_is_not_absent [of "(body_of ?A) \<lparr>body_content_type := Null\<rparr>" ?stub]
    null_is_not_absent [of "(body_of ?A) \<lparr>body_style := Null\<rparr>" ?stub]
    null_is_not_absent [of ?b ?stub request_with_None] v v0 len n
  show ?thesis
    by (simp add: body_of_def request_with_None_def)
qed

end
